theory Spec2Isabelle
  imports Complex_Main
begin

section \<open>Python strings and values\<close>

text \<open>
  A Python \<open>str\<close> is a sequence of Unicode code points, so it is modelled as a list of
  natural numbers. \<open>lit\<close> turns an ASCII literal into that representation.
\<close>

type_synonym pystr = "nat list"

definition lit :: "string \<Rightarrow> pystr" where
  "lit cs = map of_char cs"

definition nl :: pystr where
  "nl = [10]"

text \<open>
  The two status literals of \<open>conduct_research\<close> open with three non-ASCII code points
  each (U+201A U+00F9 U+00E5 and U+201A U+00FA U+00D6 in the source file).
\<close>

definition cross_mark :: pystr where
  "cross_mark = [8218, 249, 229]"

definition check_mark :: pystr where
  "check_mark = [8218, 250, 214]"

text \<open>
  \<open>str.isspace\<close> on one code point, and \<open>str.strip()\<close> without arguments, which removes
  the leading and the trailing run of such code points.
\<close>

definition isspace :: "nat \<Rightarrow> bool" where
  "isspace c \<longleftrightarrow>
     (9 \<le> c \<and> c \<le> 13) \<or> (28 \<le> c \<and> c \<le> 32) \<or> c = 133 \<or> c = 160 \<or> c = 5760 \<or>
     (8192 \<le> c \<and> c \<le> 8202) \<or> c = 8232 \<or> c = 8233 \<or> c = 8239 \<or> c = 8287 \<or> c = 12288"

definition strip :: "pystr \<Rightarrow> pystr" where
  "strip s = rev (dropWhile isspace (rev (dropWhile isspace s)))"

text \<open>\<open>sep.join(xs)\<close> and \<open>os.path.basename\<close> (POSIX: what follows the last slash).\<close>

fun join :: "pystr \<Rightarrow> pystr list \<Rightarrow> pystr" where
  "join sep [] = []"
| "join sep [x] = x"
| "join sep (x # y # ys) = x @ sep @ join sep (y # ys)"

definition basename :: "pystr \<Rightarrow> pystr" where
  "basename p = rev (takeWhile (\<lambda>c. c \<noteq> 47) (rev p))"

text \<open>
  Exceptions carry their message (\<open>str(e)\<close>); \<open>BaseException\<close> stands for an exception
  that is not an instance of \<open>Exception\<close> (\<open>KeyboardInterrupt\<close>, \<open>SystemExit\<close>,
  \<open>asyncio.CancelledError\<close>), which \<open>except Exception\<close> does not catch.
\<close>

datatype exn = Exception pystr | BaseException pystr

datatype 'a outcome = Returned 'a | Raised exn

text \<open>
  \<open>str\<close> of an integer: the decimal digits, with a minus sign for a negative number. The
  interpreter refuses the conversion with a \<open>ValueError\<close> when the number has more digits
  than its limit, 4300 unless the process is configured otherwise.
\<close>

fun nat_digits :: "nat \<Rightarrow> pystr" where
  "nat_digits n = (if n < 10 then [48 + n] else nat_digits (n div 10) @ [48 + n mod 10])"

declare nat_digits.simps [simp del]

definition decimal :: "int \<Rightarrow> pystr" where
  "decimal i = (if i < 0 then 45 # nat_digits (nat (- i)) else nat_digits (nat i))"

definition int_max_str_digits :: nat where
  "int_max_str_digits = 4300"

definition digit_limit_message :: pystr where
  "digit_limit_message =
     lit ''Exceeds the limit (4300 digits) for integer string conversion; use sys.set_int_max_str_digits() to increase the limit''"

definition int_str :: "int \<Rightarrow> exn + pystr" where
  "int_str i =
     (if int_max_str_digits < length (nat_digits (nat \<bar>i\<bar>))
      then Inl (Exception digit_limit_message)
      else Inr (decimal i))"

text \<open>
  The values an engine result can hold in a field: \<open>None\<close>, booleans, integers, strings,
  lists, and any other object (a float, an array, an instance of a class). The code
  applies four operations to such a value, and an object is given by what they do on it:
  its truth test (a boolean, or the exception it raises), the items its iteration yields
  and the exception that ends the iteration, if one does (a \<open>TypeError\<close> after no item
  for an object that is not iterable), its \<open>str\<close> and its \<open>repr\<close> (a string, or the
  exception raised). An iteration that never ends has no representation here.
\<close>

datatype pyval =
    PNone
  | PBool bool
  | PInt int
  | PStr pystr
  | PList "pyval list"
  | PObj "exn + bool" "pyval list" "exn option" "exn + pystr" "exn + pystr"

fun truthy :: "pyval \<Rightarrow> exn + bool" where
  "truthy PNone = Inr False"
| "truthy (PBool b) = Inr b"
| "truthy (PInt i) = Inr (i \<noteq> 0)"
| "truthy (PStr s) = Inr (s \<noteq> [])"
| "truthy (PList xs) = Inr (xs \<noteq> [])"
| "truthy (PObj truth items stop as_str as_repr) = truth"

definition not_iterable :: "string \<Rightarrow> exn" where
  "not_iterable ty = Exception ([39] @ lit ty @ [39] @ lit '' object is not iterable'')"

text \<open>
  What a \<open>for\<close> clause over the value runs through: the items, and the exception that
  ends the run, if any.
\<close>

fun py_iter :: "pyval \<Rightarrow> pyval list \<times> exn option" where
  "py_iter PNone = ([], Some (not_iterable ''NoneType''))"
| "py_iter (PBool b) = ([], Some (not_iterable ''bool''))"
| "py_iter (PInt i) = ([], Some (not_iterable ''int''))"
| "py_iter (PStr s) = (map (\<lambda>c. PStr [c]) s, None)"
| "py_iter (PList xs) = (xs, None)"
| "py_iter (PObj truth items stop as_str as_repr) = (items, stop)"

text \<open>The results of a run of evaluations, up to the first one that raises.\<close>

fun sequence :: "(exn + 'a) list \<Rightarrow> exn + 'a list" where
  "sequence [] = Inr []"
| "sequence (Inl e # rs) = Inl e"
| "sequence (Inr x # rs) = (case sequence rs of Inl e \<Rightarrow> Inl e | Inr xs \<Rightarrow> Inr (x # xs))"

text \<open>
  \<open>repr\<close> and \<open>str\<close> of a value, as an f-string field renders it. Python's \<open>repr\<close> of a
  string (quoting and escaping) is the interpreter's; it is the parameter \<open>rp\<close>, and is
  only reached for a string inside a list.
\<close>

fun py_repr :: "(pystr \<Rightarrow> pystr) \<Rightarrow> pyval \<Rightarrow> exn + pystr" where
  "py_repr rp PNone = Inr (lit ''None'')"
| "py_repr rp (PBool b) = Inr (if b then lit ''True'' else lit ''False'')"
| "py_repr rp (PInt i) = int_str i"
| "py_repr rp (PStr s) = Inr (rp s)"
| "py_repr rp (PList xs) =
     (case sequence (map (py_repr rp) xs) of
        Inl e \<Rightarrow> Inl e
      | Inr ts \<Rightarrow> Inr (lit ''['' @ join (lit '', '') ts @ lit '']''))"
| "py_repr rp (PObj truth items stop as_str as_repr) = as_repr"

definition py_str :: "(pystr \<Rightarrow> pystr) \<Rightarrow> pyval \<Rightarrow> exn + pystr" where
  "py_str rp v =
     (case v of
        PStr s \<Rightarrow> Inr s
      | PObj truth items stop as_str as_repr \<Rightarrow> as_str
      | _ \<Rightarrow> py_repr rp v)"

section \<open>The provider catalog\<close>

definition PROVIDERS :: "(pystr \<times> pystr list) list" where
  "PROVIDERS =
    [(lit ''openai'', [lit ''o4-mini'', lit ''o4-mini-high'', lit ''o3-mini'',
                       lit ''o3-mini-reasoning'', lit ''gpt-4o'']),
     (lit ''anthropic'', [lit ''claude-sonnet-4'', lit ''claude-sonnet-4-thinking'',
                          lit ''claude-3-7-sonnet'', lit ''claude-3-7-sonnet-thinking'']),
     (lit ''google'', [lit ''gemini-2.5-pro'', lit ''gemini-1.5-pro-latest'',
                       lit ''gemini-1.5-flash-latest'']),
     (lit ''groq'', [lit ''deepseek-r1-distill-llama-70b'', lit ''llama-3.3-70b-versatile'',
                     lit ''llama3-70b-8192'']),
     (lit ''sambanova'', [lit ''DeepSeek-V3-0324''])]"

definition get_models_for_provider :: "pystr \<Rightarrow> pystr list" where
  "get_models_for_provider provider =
     (case map_of PROVIDERS provider of Some models \<Rightarrow> models | None \<Rightarrow> [lit ''default''])"

text \<open>
  \<open>update_models\<close> builds the dropdown from the list and its element 0; indexing an empty
  list raises \<open>IndexError\<close>.
\<close>

record dropdown =
  choices :: "pystr list"
  selected :: pystr

definition update_models :: "pystr \<Rightarrow> exn + dropdown" where
  "update_models provider =
     (let models = get_models_for_provider provider
      in case models of
           [] \<Rightarrow> Inl (Exception (lit ''list index out of range''))
         | m # _ \<Rightarrow> Inr \<lparr>choices = models, selected = m\<rparr>)"

section \<open>The process state and the collaborators\<close>

text \<open>
  The keyword arguments of the engine call \<open>ResearchService.conduct_research\<close>; the
  \<open>ResearchRequest\<close> built just before takes the same eight keywords.
\<close>

record research_args =
  arg_query :: pystr
  arg_extra_effort :: bool
  arg_minimum_effort :: bool
  arg_provider :: pystr
  arg_model :: pystr
  arg_streaming :: bool
  arg_uploaded_data_content :: "pystr option"
  arg_steering_enabled :: bool

datatype level = INFO | WARNING | ERROR

text \<open>
  What an invocation can change: the process environment \<open>os.environ\<close>, the progress
  events sent to the tracker, the log records, and the engine calls made so far (each with
  the environment it ran in).
\<close>

record state =
  environ :: "pystr \<rightharpoonup> pystr"
  progress_events :: "(rat \<times> pystr) list"
  logged :: "(level \<times> pystr) list"
  engine_calls :: "((pystr \<rightharpoonup> pystr) \<times> research_args) list"

text \<open>
  What the module calls and does not define: the research engine (it sees the process
  environment and its arguments, and raises or returns a result mapping), reading an
  uploaded file as UTF-8 text (the content, or the message of the error raised), the
  test \<open>os.environ\<close> applies to a value it is asked to store (the message of the error it
  raises, if any), and \<open>repr\<close> on strings.
\<close>

record externals =
  research_service :: "(pystr \<rightharpoonup> pystr) \<Rightarrow> research_args \<Rightarrow> exn + (pystr \<rightharpoonup> pyval)"
  read_text :: "pystr \<Rightarrow> pystr + pystr"
  environ_error :: "pystr \<Rightarrow> pystr option"
  repr_str :: "pystr \<Rightarrow> pystr"

datatype upload = Upload (name: pystr)

definition progress :: "rat \<Rightarrow> pystr \<Rightarrow> state \<Rightarrow> state" where
  "progress fraction desc s = s\<lparr>progress_events := progress_events s @ [(fraction, desc)]\<rparr>"

definition logger :: "level \<Rightarrow> pystr \<Rightarrow> state \<Rightarrow> state" where
  "logger lv msg s = s\<lparr>logged := logged s @ [(lv, msg)]\<rparr>"

definition environ_set :: "externals \<Rightarrow> pystr \<Rightarrow> pystr \<Rightarrow> state \<Rightarrow> exn option \<times> state" where
  "environ_set ext k v s =
     (case environ_error ext v of
        Some msg \<Rightarrow> (Some (Exception msg), s)
      | None \<Rightarrow> (None, s\<lparr>environ := (environ s)(k \<mapsto> v)\<rparr>))"

section \<open>conduct_research\<close>

text \<open>
  The loop over the uploaded files (source lines 105 to 111): a file that reads is appended
  to \<open>file_contents\<close> under its header, a file that does not is logged as a warning, and
  the loop goes on in both cases.
\<close>

definition file_block :: "pystr \<Rightarrow> pystr \<Rightarrow> pystr" where
  "file_block path content = lit ''=== File: '' @ basename path @ lit '' ==='' @ nl @ content @ nl"

definition read_warning :: "pystr \<Rightarrow> pystr \<Rightarrow> pystr" where
  "read_warning path e = lit ''Could not read file '' @ path @ lit '': '' @ e"

fun read_uploaded :: "externals \<Rightarrow> upload list \<Rightarrow> pystr list \<Rightarrow> state \<Rightarrow> pystr list \<times> state" where
  "read_uploaded ext [] file_contents s = (file_contents, s)"
| "read_uploaded ext (file_path # rest) file_contents s =
     (case read_text ext (name file_path) of
        Inr content \<Rightarrow>
          read_uploaded ext rest (file_contents @ [file_block (name file_path) content]) s
      | Inl e \<Rightarrow>
          read_uploaded ext rest file_contents
            (logger WARNING (read_warning (name file_path) e) s))"

text \<open>
  Source lines 101 to 114: nothing happens for \<open>None\<close> or an empty list; otherwise the 0.2
  milestone is sent, the files are read, and the blocks that were read are joined by a
  blank line (\<open>None\<close> when there is none).
\<close>

definition process_uploaded :: "externals \<Rightarrow> upload list option \<Rightarrow> state \<Rightarrow> pystr option \<times> state" where
  "process_uploaded ext uploaded_files s =
     (case uploaded_files of
        None \<Rightarrow> (None, s)
      | Some [] \<Rightarrow> (None, s)
      | Some (f # fs) \<Rightarrow>
          (let (file_contents, s') =
                 read_uploaded ext (f # fs) []
                   (progress (2 / 10) (lit ''Processing uploaded files...'') s)
           in (if file_contents \<noteq> [] then Some (join (nl @ nl) file_contents) else None, s')))"

text \<open>Source lines 117 to 119: the three assignments into \<open>os.environ\<close>, in order.\<close>

definition set_session_environ :: "externals \<Rightarrow> pystr \<Rightarrow> pystr \<Rightarrow> int \<Rightarrow> state \<Rightarrow> exn option \<times> state" where
  "set_session_environ ext provider model max_loops s =
     (case environ_set ext (lit ''LLM_PROVIDER'') provider s of
        (Some e, s1) \<Rightarrow> (Some e, s1)
      | (None, s1) \<Rightarrow>
          (case environ_set ext (lit ''LLM_MODEL'') model s1 of
             (Some e, s2) \<Rightarrow> (Some e, s2)
           | (None, s2) \<Rightarrow>
               (case int_str max_loops of
                  Inl e \<Rightarrow> (Some e, s2)
                | Inr loops \<Rightarrow> environ_set ext (lit ''MAX_WEB_RESEARCH_LOOPS'') loops s2)))"

text \<open>
  Source lines 149 to 157: the three fields are read with \<open>dict.get\<close> and a default; the
  sources are iterated only when their truth test says so, each item is rendered as it is
  reached, and the first operation that raises ends the extraction.
\<close>

definition bullet :: "(pystr \<Rightarrow> pystr) \<Rightarrow> pyval \<Rightarrow> exn + pystr" where
  "bullet rp source =
     (case py_str rp source of Inl e \<Rightarrow> Inl e | Inr t \<Rightarrow> Inr (lit ''- '' @ t))"

definition complete_status :: "(pystr \<Rightarrow> pystr) \<Rightarrow> pyval \<Rightarrow> exn + pystr" where
  "complete_status rp loop_count =
     (case py_str rp loop_count of
        Inl e \<Rightarrow> Inl e
      | Inr t \<Rightarrow>
          Inr (check_mark @ lit '' Research complete! Conducted '' @ t
                 @ lit '' research loops.''))"

definition bullet_lines :: "(pystr \<Rightarrow> pystr) \<Rightarrow> pyval \<Rightarrow> exn + pystr" where
  "bullet_lines rp sources =
     (case py_iter sources of
        (items, stop) \<Rightarrow>
          (case sequence (map (bullet rp) items) of
             Inl e \<Rightarrow> Inl e
           | Inr lines \<Rightarrow>
               (case stop of Some e \<Rightarrow> Inl e | None \<Rightarrow> Inr (join nl lines))))"

definition extract_results ::
  "(pystr \<Rightarrow> pystr) \<Rightarrow> (pystr \<rightharpoonup> pyval) \<Rightarrow> exn + (pyval \<times> pystr \<times> pystr)" where
  "extract_results rp result =
     (let report = (case result (lit ''running_summary'') of
                      Some v \<Rightarrow> v | None \<Rightarrow> PStr (lit ''No report generated''));
          sources = (case result (lit ''sources_gathered'') of
                       Some v \<Rightarrow> v | None \<Rightarrow> PList [])
      in case (case truthy sources of
                 Inl e \<Rightarrow> Inl e
               | Inr True \<Rightarrow> bullet_lines rp sources
               | Inr False \<Rightarrow> Inr (lit ''No sources gathered'')) of
           Inl e \<Rightarrow> Inl e
         | Inr sources_text \<Rightarrow>
             (let loop_count = (case result (lit ''research_loop_count'') of
                                  Some v \<Rightarrow> v | None \<Rightarrow> PInt 0)
              in case complete_status rp loop_count of
                   Inl e \<Rightarrow> Inl e
                 | Inr status \<Rightarrow> Inr (report, sources_text, status)))"

text \<open>
  The body of the \<open>try\<close> block (source lines 97 to 157), with the exception it ends in,
  if any, as a value.
\<close>

definition research_body ::
  "externals \<Rightarrow> pystr \<Rightarrow> pystr \<Rightarrow> pystr \<Rightarrow> int \<Rightarrow> bool \<Rightarrow> bool \<Rightarrow> bool \<Rightarrow> upload list option
     \<Rightarrow> state \<Rightarrow> (exn + (pyval \<times> pystr \<times> pystr)) \<times> state" where
  "research_body ext query provider model max_loops extra_effort minimum_effort
       enable_steering uploaded_files s0 =
     (let s1 = progress (1 / 10) (lit ''Initializing research...'') s0;
          s2 = logger INFO (lit ''Starting research: '' @ take 50 query @ lit ''...'') s1;
          (uploaded_data_content, s3) = process_uploaded ext uploaded_files s2
      in case set_session_environ ext provider model max_loops s3 of
           (Some e, s4) \<Rightarrow> (Inl e, s4)
         | (None, s4) \<Rightarrow>
             (let s5 = progress (3 / 10) (lit ''Starting deep research...'') s4;
                  research_request =
                    \<lparr>arg_query = query, arg_extra_effort = extra_effort,
                     arg_minimum_effort = minimum_effort, arg_provider = provider,
                     arg_model = model, arg_streaming = False,
                     arg_uploaded_data_content = uploaded_data_content,
                     arg_steering_enabled = enable_steering\<rparr>;
                  kwargs =
                    \<lparr>arg_query = query, arg_extra_effort = extra_effort,
                     arg_minimum_effort = minimum_effort, arg_provider = provider,
                     arg_model = model, arg_streaming = False,
                     arg_uploaded_data_content = uploaded_data_content,
                     arg_steering_enabled = enable_steering\<rparr>;
                  s6 = s5\<lparr>engine_calls := engine_calls s5 @ [(environ s5, kwargs)]\<rparr>
              in case research_service ext (environ s6) kwargs of
                   Inl e \<Rightarrow> (Inl e, s6)
                 | Inr result \<Rightarrow>
                     (extract_results (repr_str ext) result,
                      progress 1 (lit ''Research complete!'') s6)))"

text \<open>
  The whole function: the guard on the query (source lines 93 and 94), the body, and the
  handler \<open>except Exception\<close> (source lines 159 to 161), which an exception outside
  \<open>Exception\<close> passes through.
\<close>

definition conduct_research ::
  "externals \<Rightarrow> pystr \<Rightarrow> pystr \<Rightarrow> pystr \<Rightarrow> int \<Rightarrow> bool \<Rightarrow> bool \<Rightarrow> bool \<Rightarrow> upload list option
     \<Rightarrow> state \<Rightarrow> (pyval \<times> pystr \<times> pystr) outcome \<times> state" where
  "conduct_research ext query provider model max_loops extra_effort minimum_effort
       enable_steering uploaded_files s =
     (if query = [] \<or> strip query = []
      then (Returned (PStr [], [], cross_mark @ lit '' Please enter a research query''), s)
      else
        (case research_body ext query provider model max_loops extra_effort minimum_effort
                enable_steering uploaded_files s of
           (Inr res, s') \<Rightarrow> (Returned res, s')
         | (Inl (Exception msg), s') \<Rightarrow>
             (Returned (PStr [], [], cross_mark @ lit '' Error during research: '' @ msg),
              logger ERROR (lit ''Research error: '' @ msg) s')
         | (Inl (BaseException msg), s') \<Rightarrow> (Raised (BaseException msg), s')))"

section \<open>Reference definitions\<close>

text \<open>
  The document bundle as the specification describes it: the (file name, text) pairs of
  the files that could be read, in upload order, and beside it the (file name, reason)
  pairs of the files that were skipped.
\<close>

definition document_bundle :: "externals \<Rightarrow> upload list \<Rightarrow> (pystr \<times> pystr) list" where
  "document_bundle ext files =
     List.map_filter (\<lambda>f. case read_text ext (name f) of Inr content \<Rightarrow> Some (name f, content) | Inl e \<Rightarrow> None) files"

definition skip_warnings :: "externals \<Rightarrow> upload list \<Rightarrow> (pystr \<times> pystr) list" where
  "skip_warnings ext files =
     List.map_filter (\<lambda>f. case read_text ext (name f) of Inl e \<Rightarrow> Some (name f, e) | Inr content \<Rightarrow> None) files"

text \<open>
  What an upload list contributes to an invocation: the text handed to the engine, the
  progress events and the log records.
\<close>

definition uploaded_text :: "externals \<Rightarrow> upload list option \<Rightarrow> pystr option" where
  "uploaded_text ext uploaded_files =
     (case uploaded_files of
        None \<Rightarrow> None
      | Some files \<Rightarrow>
          (if document_bundle ext files = [] then None
           else Some (join (nl @ nl) (map (\<lambda>(n, c). file_block n c) (document_bundle ext files)))))"

definition upload_events :: "upload list option \<Rightarrow> (rat \<times> pystr) list" where
  "upload_events uploaded_files =
     (case uploaded_files of
        None \<Rightarrow> []
      | Some [] \<Rightarrow> []
      | Some (f # fs) \<Rightarrow> [(2 / 10, lit ''Processing uploaded files...'')])"

definition upload_warnings :: "externals \<Rightarrow> upload list option \<Rightarrow> (level \<times> pystr) list" where
  "upload_warnings ext uploaded_files =
     (case uploaded_files of
        None \<Rightarrow> []
      | Some files \<Rightarrow> map (\<lambda>(n, e). (WARNING, read_warning n e)) (skip_warnings ext files))"

text \<open>
  The process environment after the three assignments, the keyword arguments of the engine
  call, and the triple the handler returns for an error message.
\<close>

definition session_environ :: "pystr \<Rightarrow> pystr \<Rightarrow> int \<Rightarrow> (pystr \<rightharpoonup> pystr) \<Rightarrow> (pystr \<rightharpoonup> pystr)" where
  "session_environ provider model max_loops env =
     env(lit ''LLM_PROVIDER'' \<mapsto> provider, lit ''LLM_MODEL'' \<mapsto> model,
         lit ''MAX_WEB_RESEARCH_LOOPS'' \<mapsto> decimal max_loops)"

definition engine_kwargs ::
  "externals \<Rightarrow> pystr \<Rightarrow> pystr \<Rightarrow> pystr \<Rightarrow> bool \<Rightarrow> bool \<Rightarrow> bool \<Rightarrow> upload list option \<Rightarrow> research_args" where
  "engine_kwargs ext query provider model extra_effort minimum_effort enable_steering uploaded_files =
     \<lparr>arg_query = query, arg_extra_effort = extra_effort,
      arg_minimum_effort = minimum_effort, arg_provider = provider,
      arg_model = model, arg_streaming = False,
      arg_uploaded_data_content = uploaded_text ext uploaded_files,
      arg_steering_enabled = enable_steering\<rparr>"

definition error_result :: "pystr \<Rightarrow> pyval \<times> pystr \<times> pystr" where
  "error_result msg = (PStr [], [], cross_mark @ lit '' Error during research: '' @ msg)"

text \<open>
  \<open>environ_accepts\<close>: the loop count has a decimal rendering and the three values
  written to the environment are all stored; otherwise \<open>environ_failure\<close> is the message
  of the first of the three assignments that raises.
\<close>

definition environ_accepts :: "externals \<Rightarrow> pystr \<Rightarrow> pystr \<Rightarrow> int \<Rightarrow> bool" where
  "environ_accepts ext provider model max_loops \<longleftrightarrow>
     environ_error ext provider = None \<and> environ_error ext model = None \<and>
     int_str max_loops = Inr (decimal max_loops) \<and>
     environ_error ext (decimal max_loops) = None"

definition environ_failure :: "externals \<Rightarrow> pystr \<Rightarrow> pystr \<Rightarrow> int \<Rightarrow> pystr option" where
  "environ_failure ext provider model max_loops =
     (case environ_error ext provider of
        Some msg \<Rightarrow> Some msg
      | None \<Rightarrow>
          (case environ_error ext model of
             Some msg \<Rightarrow> Some msg
           | None \<Rightarrow>
               (case int_str max_loops of
                  Inl e \<Rightarrow> Some digit_limit_message
                | Inr loops \<Rightarrow> environ_error ext loops)))"

text \<open>
  The four progress calls of \<open>conduct_research\<close>. The fractions are the decimal
  literals of the source, taken as rationals; their order is that of the floats.
\<close>

definition milestones :: "(rat \<times> pystr) set" where
  "milestones = {(1 / 10, lit ''Initializing research...''),
                 (2 / 10, lit ''Processing uploaded files...''),
                 (3 / 10, lit ''Starting deep research...''),
                 (1, lit ''Research complete!'')}"

text \<open>
  A test double for the collaborators: an engine that gives one fixed answer, a file
  system with a single readable file, an environment that rejects a value holding a NUL
  character, and the state of a process that has made no call yet. \<open>example_result\<close>
  is the engine result of the end-to-end example of the specification.
\<close>

definition engine_mock :: "exn + (pystr \<rightharpoonup> pyval) \<Rightarrow> (pystr \<rightharpoonup> pystr) \<Rightarrow> research_args \<Rightarrow> exn + (pystr \<rightharpoonup> pyval)" where
  "engine_mock answer env kwargs = answer"

definition test_externals :: "exn + (pystr \<rightharpoonup> pyval) \<Rightarrow> externals" where
  "test_externals answer =
     \<lparr>research_service = engine_mock answer,
      read_text = (\<lambda>path. if path = lit ''/tmp/notes.txt'' then Inr (lit ''alpha'')
                          else Inl (lit ''No such file'')),
      environ_error = (\<lambda>v. if 0 \<in> set v then Some (lit ''embedded null byte'') else None),
      repr_str = (\<lambda>s. [39] @ s @ [39])\<rparr>"

definition initial_state :: state where
  "initial_state = \<lparr>environ = Map.empty, progress_events = [], logged = [], engine_calls = []\<rparr>"

definition example_result :: "pystr \<rightharpoonup> pyval" where
  "example_result =
     [lit ''running_summary'' \<mapsto> PStr (lit ''Report body''),
      lit ''sources_gathered'' \<mapsto> PList [PStr (lit ''https://a.com''), PStr (lit ''https://b.com'')],
      lit ''research_loop_count'' \<mapsto> PInt 5]"

section \<open>Properties of the operations\<close>

lemma strip_Nil_iff: "strip q = [] \<longleftrightarrow> list_all isspace q"
proof
  assume "strip q = []"
  then have a: "dropWhile isspace (rev (dropWhile isspace q)) = []"
    by (simp add: strip_def)
  have "dropWhile isspace q = []"
  proof (rule ccontr)
    assume ne: "dropWhile isspace q \<noteq> []"
    then have "\<not> isspace (hd (dropWhile isspace q))" by (rule hd_dropWhile)
    moreover have "hd (dropWhile isspace q) \<in> set (rev (dropWhile isspace q))"
      using ne by simp
    ultimately show False using a by (auto simp: dropWhile_eq_Nil_conv)
  qed
  then show "list_all isspace q" by (simp add: dropWhile_eq_Nil_conv list_all_iff)
next
  assume "list_all isspace q"
  then show "strip q = []"
    by (auto simp: strip_def list_all_iff dropWhile_eq_Nil_conv dest: set_dropWhileD)
qed

lemma guard_iff: "(q = [] \<or> strip q = []) \<longleftrightarrow> list_all isspace q"
  by (auto simp: strip_Nil_iff)

lemma bundle_Cons:
  "document_bundle ext (f # fs) =
     (case read_text ext (name f) of Inr c \<Rightarrow> (name f, c) # document_bundle ext fs
      | Inl e \<Rightarrow> document_bundle ext fs)"
  by (simp add: document_bundle_def map_filter_simps split: sum.splits)

lemma skip_Cons:
  "skip_warnings ext (f # fs) =
     (case read_text ext (name f) of Inl e \<Rightarrow> (name f, e) # skip_warnings ext fs
      | Inr c \<Rightarrow> skip_warnings ext fs)"
  by (simp add: skip_warnings_def map_filter_simps split: sum.splits)

lemma bundle_Nil [simp]: "document_bundle ext [] = []" "skip_warnings ext [] = []"
  by (simp_all add: document_bundle_def skip_warnings_def map_filter_simps)

lemma read_uploaded_eq:
  "read_uploaded ext files acc s =
     (acc @ map (\<lambda>(n, c). file_block n c) (document_bundle ext files),
      s\<lparr>logged := logged s @ map (\<lambda>(n, e). (WARNING, read_warning n e)) (skip_warnings ext files)\<rparr>)"
proof (induction files arbitrary: acc s)
  case Nil
  show ?case by simp
next
  case (Cons f fs)
  show ?case
  proof (cases "read_text ext (name f)")
    case (Inl e)
    then show ?thesis by (simp add: Cons.IH bundle_Cons skip_Cons logger_def)
  next
    case (Inr c)
    then show ?thesis by (simp add: Cons.IH bundle_Cons skip_Cons)
  qed
qed

lemma process_uploaded_eq:
  "process_uploaded ext uploaded_files s =
     (uploaded_text ext uploaded_files,
      s\<lparr>progress_events := progress_events s @ upload_events uploaded_files,
        logged := logged s @ upload_warnings ext uploaded_files\<rparr>)"
proof (cases uploaded_files)
  case None
  then show ?thesis
    by (simp add: process_uploaded_def uploaded_text_def upload_events_def upload_warnings_def)
next
  case (Some files)
  show ?thesis
  proof (cases files)
    case Nil
    with Some show ?thesis
      by (simp add: process_uploaded_def uploaded_text_def upload_events_def upload_warnings_def)
  next
    case (Cons f fs)
    with Some show ?thesis
      by (simp add: process_uploaded_def uploaded_text_def upload_events_def upload_warnings_def
            read_uploaded_eq progress_def del: read_uploaded.simps)
  qed
qed

lemma int_str_cases:
  "int_str i = Inl (Exception digit_limit_message) \<or> int_str i = Inr (decimal i)"
  by (simp add: int_str_def)

lemma set_session_environ_ok:
  "environ_accepts ext provider model max_loops \<Longrightarrow>
   set_session_environ ext provider model max_loops s =
     (None, s\<lparr>environ := session_environ provider model max_loops (environ s)\<rparr>)"
  by (simp add: set_session_environ_def environ_set_def environ_accepts_def session_environ_def)

lemma environ_accepts_iff:
  "environ_accepts ext provider model max_loops \<longleftrightarrow>
     environ_failure ext provider model max_loops = None"
  using int_str_cases [of max_loops]
  by (auto simp: environ_accepts_def environ_failure_def split: option.splits)

lemma set_session_environ_fail:
  "environ_failure ext provider model max_loops = Some msg \<Longrightarrow>
   \<exists>s'. set_session_environ ext provider model max_loops s = (Some (Exception msg), s')
      \<and> progress_events s' = progress_events s \<and> logged s' = logged s
      \<and> engine_calls s' = engine_calls s"
  using int_str_cases [of max_loops]
  by (auto simp add: set_session_environ_def environ_set_def environ_failure_def
        split: option.splits)

lemma engine_calls_dispatched:
  assumes "\<not> list_all isspace query" "environ_accepts ext provider model max_loops"
  shows "engine_calls (snd (conduct_research ext query provider model max_loops extra_effort
            minimum_effort enable_steering uploaded_files s)) =
         engine_calls s @ [(session_environ provider model max_loops (environ s),
            engine_kwargs ext query provider model extra_effort minimum_effort enable_steering
              uploaded_files)]"
  using assms
  by (simp add: conduct_research_def guard_iff research_body_def process_uploaded_eq
        set_session_environ_ok progress_def logger_def engine_kwargs_def Let_def
        split: sum.splits exn.splits)

lemma environ_dispatched:
  assumes "\<not> list_all isspace query" "environ_accepts ext provider model max_loops"
  shows "environ (snd (conduct_research ext query provider model max_loops extra_effort
            minimum_effort enable_steering uploaded_files s)) =
         session_environ provider model max_loops (environ s)"
  using assms
  by (simp add: conduct_research_def guard_iff research_body_def process_uploaded_eq
        set_session_environ_ok progress_def logger_def engine_kwargs_def Let_def
        split: sum.splits exn.splits)

lemma outcome_dispatched:
  assumes "\<not> list_all isspace query" "environ_accepts ext provider model max_loops"
  shows "fst (conduct_research ext query provider model max_loops extra_effort
            minimum_effort enable_steering uploaded_files s) =
         (case research_service ext (session_environ provider model max_loops (environ s))
                 (engine_kwargs ext query provider model extra_effort minimum_effort
                    enable_steering uploaded_files) of
            Inl (Exception msg) \<Rightarrow> Returned (error_result msg)
          | Inl (BaseException msg) \<Rightarrow> Raised (BaseException msg)
          | Inr result \<Rightarrow>
              (case extract_results (repr_str ext) result of
                 Inr res \<Rightarrow> Returned res
               | Inl (Exception msg) \<Rightarrow> Returned (error_result msg)
               | Inl (BaseException msg) \<Rightarrow> Raised (BaseException msg)))"
  using assms
  by (simp add: conduct_research_def guard_iff research_body_def process_uploaded_eq
        set_session_environ_ok progress_def logger_def engine_kwargs_def Let_def error_result_def
        split: sum.splits exn.splits)

lemma research_body_env_fail:
  assumes "environ_failure ext provider model max_loops = Some msg"
  shows "\<exists>s'. research_body ext query provider model max_loops extra_effort minimum_effort
            enable_steering uploaded_files s = (Inl (Exception msg), s')
          \<and> engine_calls s' = engine_calls s
          \<and> progress_events s' = progress_events s
               @ (1 / 10, lit ''Initializing research...'') # upload_events uploaded_files"
  using set_session_environ_fail [OF assms, of "snd (process_uploaded ext uploaded_files
      (logger INFO (lit ''Starting research: '' @ take 50 query @ lit ''...'')
         (progress (1 / 10) (lit ''Initializing research...'') s)))"]
  by (auto simp: research_body_def Let_def split_def process_uploaded_eq progress_def logger_def)

lemma engine_calls_not_dispatched:
  assumes "list_all isspace query \<or> \<not> environ_accepts ext provider model max_loops"
  shows "engine_calls (snd (conduct_research ext query provider model max_loops extra_effort
            minimum_effort enable_steering uploaded_files s)) = engine_calls s"
proof (cases "list_all isspace query")
  case True
  then show ?thesis by (simp add: conduct_research_def guard_iff)
next
  case False
  with assms obtain msg where "environ_failure ext provider model max_loops = Some msg"
    by (auto simp: environ_accepts_iff)
  from research_body_env_fail [OF this, of query extra_effort minimum_effort enable_steering
      uploaded_files s]
  show ?thesis using False
    by (auto simp: conduct_research_def guard_iff logger_def)
qed

lemma progress_events_dispatched:
  assumes "\<not> list_all isspace query" "environ_accepts ext provider model max_loops"
  shows "progress_events (snd (conduct_research ext query provider model max_loops extra_effort
            minimum_effort enable_steering uploaded_files s)) =
         progress_events s @ (1 / 10, lit ''Initializing research...'') # upload_events uploaded_files
           @ (3 / 10, lit ''Starting deep research...'')
           # (case research_service ext (session_environ provider model max_loops (environ s))
                 (engine_kwargs ext query provider model extra_effort minimum_effort
                    enable_steering uploaded_files) of
                Inl e \<Rightarrow> [] | Inr result \<Rightarrow> [(1, lit ''Research complete!'')])"
  using assms
  by (simp add: conduct_research_def guard_iff research_body_def process_uploaded_eq
        set_session_environ_ok progress_def logger_def engine_kwargs_def Let_def
        split: sum.splits exn.splits)

lemma conduct_research_env_fail:
  assumes "\<not> list_all isspace query" "environ_failure ext provider model max_loops = Some msg"
  shows "fst (conduct_research ext query provider model max_loops extra_effort
            minimum_effort enable_steering uploaded_files s) = Returned (error_result msg)"
    and "progress_events (snd (conduct_research ext query provider model max_loops extra_effort
            minimum_effort enable_steering uploaded_files s)) =
         progress_events s @ (1 / 10, lit ''Initializing research...'') # upload_events uploaded_files"
  using research_body_env_fail [OF assms(2), of query extra_effort minimum_effort enable_steering
      uploaded_files s] assms(1)
  by (auto simp: conduct_research_def guard_iff logger_def error_result_def)

text \<open>The definitions a concrete run unfolds.\<close>

lemmas run_defs = conduct_research_def research_body_def process_uploaded_def
  set_session_environ_def environ_set_def extract_results_def progress_def logger_def
  test_externals_def engine_mock_def initial_state_def example_result_def
  strip_def isspace_def lit_def nl_def cross_mark_def check_mark_def
  bullet_def bullet_lines_def complete_status_def py_str_def int_str_def decimal_def
  int_max_str_digits_def digit_limit_message_def nat_digits.simps
  file_block_def read_warning_def basename_def not_iterable_def Let_def

lemma document_bundle_filter:
  "document_bundle ext (filter (\<lambda>f. \<not> isl (read_text ext (name f))) files) = document_bundle ext files"
  by (induction files) (auto simp: bundle_Cons split: sum.splits)

lemma document_bundle_names:
  "map fst (document_bundle ext files) = map name (filter (\<lambda>f. \<not> isl (read_text ext (name f))) files)"
  by (induction files) (auto simp: bundle_Cons split: sum.splits)

lemma skip_warnings_names:
  "map fst (skip_warnings ext files) = map name (filter (\<lambda>f. isl (read_text ext (name f))) files)"
  by (induction files) (auto simp: skip_Cons split: sum.splits)

lemma bundle_skip_length:
  "length (document_bundle ext files) + length (skip_warnings ext files) = length files"
  by (induction files) (auto simp: bundle_Cons skip_Cons split: sum.splits)

lemma outcome_independent_of_skipped:
  "fst (conduct_research ext query provider model max_loops extra_effort minimum_effort
          enable_steering (Some files) s) =
   fst (conduct_research ext query provider model max_loops extra_effort minimum_effort
          enable_steering (Some (filter (\<lambda>f. \<not> isl (read_text ext (name f))) files)) s)"
proof (cases "list_all isspace query")
  case True
  then show ?thesis by (simp add: conduct_research_def guard_iff)
next
  case False
  show ?thesis
  proof (cases "environ_failure ext provider model max_loops")
    case None
    then have "environ_accepts ext provider model max_loops" by (simp add: environ_accepts_iff)
    with False show ?thesis
      by (simp add: outcome_dispatched engine_kwargs_def uploaded_text_def document_bundle_filter)
  next
    case (Some msg)
    with False show ?thesis by (simp add: conduct_research_env_fail(1))
  qed
qed

lemma PROVIDERS_keys:
  "map fst PROVIDERS = [lit ''openai'', lit ''anthropic'', lit ''google'', lit ''groq'', lit ''sambanova'']"
  by (simp add: PROVIDERS_def)

lemma PROVIDERS_distinct: "distinct (map fst PROVIDERS)"
  by (simp add: PROVIDERS_keys lit_def)

lemma PROVIDERS_nonempty: "(p, ms) \<in> set PROVIDERS \<Longrightarrow> ms \<noteq> []"
  by (auto simp: PROVIDERS_def)

lemma nonblank_example: "\<not> list_all isspace (lit ''quantum computing trends'')"
  by (simp add: lit_def isspace_def)

lemma decimal_small: "decimal 0 = lit ''0''" "decimal 5 = lit ''5''" "decimal 25 = lit ''25''"
  by (simp_all add: decimal_def nat_digits.simps lit_def)

lemma int_str_small:
  "int_str 0 = Inr (lit ''0'')" "int_str 5 = Inr (lit ''5'')" "int_str 25 = Inr (lit ''25'')"
  by (simp_all add: int_str_def int_max_str_digits_def decimal_def nat_digits.simps lit_def)

lemma test_externals_accepts:
  "environ_accepts (test_externals answer) (lit ''openai'') (lit ''o3-mini'') 5"
  "environ_accepts (test_externals answer) (lit ''acme'') (lit ''o3-mini'') 5"
  "environ_accepts (test_externals answer) (lit ''openai'') (lit ''o3-mini'') 25"
  by (simp_all add: environ_accepts_def test_externals_def lit_def int_str_def decimal_def
        int_max_str_digits_def nat_digits.simps)

lemma upload_events_cases:
  "(uploaded_files = None \<or> uploaded_files = Some []) \<and> upload_events uploaded_files = []
   \<or> uploaded_files \<noteq> None \<and> uploaded_files \<noteq> Some []
       \<and> upload_events uploaded_files = [(2 / 10, lit ''Processing uploaded files...'')]"
  by (auto simp: upload_events_def split: option.splits list.splits)

lemma sequence_returns_iff:
  "(\<exists>ys. sequence rs = Inr ys) \<longleftrightarrow> (\<forall>r \<in> set rs. \<exists>y. r = Inr y)"
proof (induction rs)
  case Nil
  show ?case by simp
next
  case (Cons r rs)
  show ?case
  proof (cases r)
    case (Inl e)
    then show ?thesis by auto
  next
    case (Inr y)
    with Cons show ?thesis by (cases "sequence rs") auto
  qed
qed

lemma bullet_returns_iff:
  "(\<exists>l. bullet rp x = Inr l) \<longleftrightarrow> (\<exists>t. py_str rp x = Inr t)"
  by (cases "py_str rp x") (auto simp: bullet_def)


lemma nat_digits_times10: "0 < n \<Longrightarrow> nat_digits (n * 10) = nat_digits n @ [48]"
  by (subst nat_digits.simps) simp

lemma length_nat_digits_power: "length (nat_digits (10 ^ k)) = Suc k"
proof (induction k)
  case 0
  show ?case by (simp add: nat_digits.simps)
next
  case (Suc k)
  have "nat_digits (10 ^ Suc k) = nat_digits (10 ^ k * 10)" by (simp add: mult.commute)
  also have "\<dots> = nat_digits (10 ^ k) @ [48]" by (rule nat_digits_times10) simp
  finally show ?case using Suc by simp
qed

lemma int_str_over_limit:
  "int_str (10 ^ int_max_str_digits) = Inl (Exception digit_limit_message)"
proof -
  have "nat \<bar>10 ^ int_max_str_digits :: int\<bar> = 10 ^ int_max_str_digits"
    by (simp add: nat_power_eq)
  then have "length (nat_digits (nat \<bar>10 ^ int_max_str_digits :: int\<bar>)) =
      Suc int_max_str_digits"
    by (simp only: length_nat_digits_power)
  then show ?thesis by (simp only: int_str_def lessI if_True)
qed

lemma int_str_at_limit:
  "int_str (10 ^ (int_max_str_digits - 1)) = Inr (decimal (10 ^ (int_max_str_digits - 1)))"
proof -
  have pos: "0 < int_max_str_digits" by (simp add: int_max_str_digits_def)
  have "nat \<bar>10 ^ (int_max_str_digits - 1) :: int\<bar> = 10 ^ (int_max_str_digits - 1)"
    by (simp add: nat_power_eq)
  then have "length (nat_digits (nat \<bar>10 ^ (int_max_str_digits - 1) :: int\<bar>)) =
      Suc (int_max_str_digits - 1)"
    by (simp only: length_nat_digits_power)
  with pos have "length (nat_digits (nat \<bar>10 ^ (int_max_str_digits - 1) :: int\<bar>)) =
      int_max_str_digits"
    by simp
  then show ?thesis by (simp only: int_str_def less_irrefl if_False)
qed

section \<open>The claims\<close>

text \<open>
  Claim C1, as amended. The claim says that no invocation writes provider, model or loop
  count into process-wide state. The code does: an invocation with a non-blank query,
  whose loop count has a decimal rendering (at most 4300 digits) and whose values the
  environment accepts, assigns provider, model and the decimal loop count to \<open>LLM_PROVIDER\<close>, \<open>LLM_MODEL\<close> and \<open>MAX_WEB_RESEARCH_LOOPS\<close> in the process environment
  before its engine call, the engine runs in that environment, and the environment stays
  so afterwards. Provider and model are passed as keyword arguments as well; the loop
  count is no keyword argument and travels through the environment only.
\<close>

theorem session_configuration_written_to_environ:
  assumes "\<not> list_all isspace query" "environ_accepts ext provider model max_loops"
  shows "environ (snd (conduct_research ext query provider model max_loops extra_effort
            minimum_effort enable_steering uploaded_files s)) =
           (environ s)(lit ''LLM_PROVIDER'' \<mapsto> provider, lit ''LLM_MODEL'' \<mapsto> model,
              lit ''MAX_WEB_RESEARCH_LOOPS'' \<mapsto> decimal max_loops)
       \<and> engine_calls (snd (conduct_research ext query provider model max_loops extra_effort
            minimum_effort enable_steering uploaded_files s)) =
           engine_calls s @
             [((environ s)(lit ''LLM_PROVIDER'' \<mapsto> provider, lit ''LLM_MODEL'' \<mapsto> model,
                  lit ''MAX_WEB_RESEARCH_LOOPS'' \<mapsto> decimal max_loops),
               engine_kwargs ext query provider model extra_effort minimum_effort enable_steering
                 uploaded_files)]
       \<and> arg_provider (engine_kwargs ext query provider model extra_effort minimum_effort
            enable_steering uploaded_files) = provider
       \<and> arg_model (engine_kwargs ext query provider model extra_effort minimum_effort
            enable_steering uploaded_files) = model"
  using environ_dispatched [OF assms] engine_calls_dispatched [OF assms]
  by (simp add: session_environ_def engine_kwargs_def)

theorem session_configuration_written_to_environ_witness:
  "\<not> list_all isspace (lit ''quantum computing trends'')
   \<and> environ_accepts (test_externals (Inr example_result)) (lit ''openai'') (lit ''o3-mini'') 5
   \<and> environ (snd (conduct_research (test_externals (Inr example_result))
         (lit ''quantum computing trends'') (lit ''openai'') (lit ''o3-mini'') 5 False False False
         None initial_state)) =
       [lit ''LLM_PROVIDER'' \<mapsto> lit ''openai'', lit ''LLM_MODEL'' \<mapsto> lit ''o3-mini'',
        lit ''MAX_WEB_RESEARCH_LOOPS'' \<mapsto> lit ''5'']"
proof -
  have h1: "\<not> list_all isspace (lit ''quantum computing trends'')"
    by (simp add: lit_def isspace_def)
  have h2: "environ_accepts (test_externals (Inr example_result)) (lit ''openai'') (lit ''o3-mini'') 5"
    by (rule test_externals_accepts(1))
  from session_configuration_written_to_environ [OF h1 h2, of False False False None initial_state]
  show ?thesis using h1 h2 by (simp add: decimal_small initial_state_def)
qed

text \<open>
  The claim C1 as stated fails on the end-to-end example: the environment holds no loop
  count before the invocation and holds 5, with the provider and the model, after it.
\<close>

theorem environ_write_counterexample:
  "environ initial_state (lit ''MAX_WEB_RESEARCH_LOOPS'') = None
   \<and> environ (snd (conduct_research (test_externals (Inr example_result))
         (lit ''quantum computing trends'') (lit ''openai'') (lit ''o3-mini'') 5 False False False
         None initial_state)) (lit ''MAX_WEB_RESEARCH_LOOPS'') = Some (lit ''5'')
   \<and> environ (snd (conduct_research (test_externals (Inr example_result))
         (lit ''quantum computing trends'') (lit ''openai'') (lit ''o3-mini'') 5 False False False
         None initial_state)) (lit ''LLM_PROVIDER'') = Some (lit ''openai'')
   \<and> environ (snd (conduct_research (test_externals (Inr example_result))
         (lit ''quantum computing trends'') (lit ''openai'') (lit ''o3-mini'') 5 False False False
         None initial_state)) (lit ''LLM_MODEL'') = Some (lit ''o3-mini'')"
  by (simp add: run_defs)

text \<open>
  Claim C2. A query that is empty or holds only whitespace makes \<open>conduct_research\<close>
  return the triple of two empty strings and the fixed error status at once, whatever the
  other inputs are; the state is the one it started in, so the engine was not called, no
  progress event was sent and nothing was written.
\<close>

theorem blank_query_short_circuit:
  assumes "list_all isspace query"
  shows "conduct_research ext query provider model max_loops extra_effort minimum_effort
           enable_steering uploaded_files s =
         (Returned (PStr [], [], cross_mark @ lit '' Please enter a research query''), s)"
  using assms by (simp add: conduct_research_def guard_iff)

theorem blank_query_short_circuit_witness:
  "list_all isspace (lit ''   '') \<and>
   conduct_research (test_externals (Inr example_result)) (lit ''   '') (lit ''openai'')
       (lit ''o3-mini'') 5 False False False (Some [Upload (lit ''/tmp/notes.txt'')]) initial_state =
     (Returned (PStr [], [], cross_mark @ lit '' Please enter a research query''), initial_state)
   \<and> engine_calls initial_state = []"
proof -
  have h: "list_all isspace (lit ''   '')" by (simp add: lit_def isspace_def)
  from blank_query_short_circuit [OF h] h show ?thesis by (simp add: initial_state_def)
qed

text \<open>
  Claim C3, as amended. \<open>conduct_research\<close> does not consult the provider catalog. For a
  provider that is no key of the catalog, an invocation with a non-blank query, whose loop
  count has a decimal rendering (at most 4300 digits) and whose values the environment
  accepts, calls the engine exactly once and hands it the provider
  unchanged; when the engine returns a result that the extraction accepts, the invocation
  returns it as for any other provider.
\<close>

theorem unknown_provider_is_dispatched:
  assumes "provider \<notin> fst ` set PROVIDERS"
    and "\<not> list_all isspace query" "environ_accepts ext provider model max_loops"
  shows "length (engine_calls (snd (conduct_research ext query provider model max_loops
            extra_effort minimum_effort enable_steering uploaded_files s))) =
           Suc (length (engine_calls s))
       \<and> arg_provider (snd (last (engine_calls (snd (conduct_research ext query provider model
            max_loops extra_effort minimum_effort enable_steering uploaded_files s))))) = provider
       \<and> (\<forall>result res.
            research_service ext (session_environ provider model max_loops (environ s))
              (engine_kwargs ext query provider model extra_effort minimum_effort enable_steering
                 uploaded_files) = Inr result
            \<and> extract_results (repr_str ext) result = Inr res \<longrightarrow>
            fst (conduct_research ext query provider model max_loops extra_effort minimum_effort
                   enable_steering uploaded_files s) = Returned res)"
  using engine_calls_dispatched [OF assms(2,3)] outcome_dispatched [OF assms(2,3)]
  by (simp add: engine_kwargs_def)

theorem unknown_provider_is_dispatched_witness:
  "lit ''acme'' \<notin> fst ` set PROVIDERS
   \<and> \<not> list_all isspace (lit ''quantum computing trends'')
   \<and> environ_accepts (test_externals (Inr example_result)) (lit ''acme'') (lit ''o3-mini'') 5
   \<and> length (engine_calls (snd (conduct_research (test_externals (Inr example_result))
         (lit ''quantum computing trends'') (lit ''acme'') (lit ''o3-mini'') 5 False False False
         None initial_state))) = Suc 0"
proof -
  have h1: "lit ''acme'' \<notin> fst ` set PROVIDERS" by (simp add: PROVIDERS_def lit_def)
  from unknown_provider_is_dispatched [OF h1 nonblank_example test_externals_accepts(2),
      of "Inr example_result" False False False None initial_state]
  show ?thesis using h1 nonblank_example test_externals_accepts(2) [of "Inr example_result"]
    by (simp add: initial_state_def)
qed

text \<open>
  The claim C3 as stated fails for the provider \<open>acme\<close>: it is not in the catalog, the
  invocation succeeds, and the engine was called once, with that provider.
\<close>

theorem unknown_provider_counterexample:
  "lit ''acme'' \<notin> fst ` set PROVIDERS
   \<and> fst (conduct_research (test_externals (Inr example_result))
         (lit ''quantum computing trends'') (lit ''acme'') (lit ''o3-mini'') 5 False False False
         None initial_state) =
       Returned (PStr (lit ''Report body''), lit ''- https://a.com'' @ nl @ lit ''- https://b.com'',
         check_mark @ lit '' Research complete! Conducted 5 research loops.'')
   \<and> map (\<lambda>c. arg_provider (snd c)) (engine_calls (snd (conduct_research
         (test_externals (Inr example_result))
         (lit ''quantum computing trends'') (lit ''acme'') (lit ''o3-mini'') 5 False False False
         None initial_state))) = [lit ''acme'']"
  by (simp add: run_defs PROVIDERS_def)

text \<open>
  Claim C4, as amended. In an invocation with a non-blank query, whose loop count has a
  decimal rendering (at most 4300 digits) and whose values the environment accepts, the
  loop count handed toward the engine is the decimal rendering of \<open>max_loops\<close> as given,
  stored under \<open>MAX_WEB_RESEARCH_LOOPS\<close> in the environment of the engine call: it is
  neither clamped into the range 1 to 20 nor set to 1 under minimum effort. The two
  effort flags reach the engine unchanged as keyword arguments. A loop count that \<open>str\<close>
  refuses to render reaches no engine call at all.
\<close>

theorem loop_count_passed_unclamped:
  assumes "\<not> list_all isspace query"
  shows "(environ_accepts ext provider model max_loops \<longrightarrow>
          (\<exists>env kwargs.
             engine_calls (snd (conduct_research ext query provider model max_loops extra_effort
               minimum_effort enable_steering uploaded_files s)) = engine_calls s @ [(env, kwargs)]
           \<and> int_str max_loops = Inr (decimal max_loops)
           \<and> env (lit ''MAX_WEB_RESEARCH_LOOPS'') = Some (decimal max_loops)
           \<and> arg_minimum_effort kwargs = minimum_effort
           \<and> arg_extra_effort kwargs = extra_effort))
       \<and> (int_str max_loops \<noteq> Inr (decimal max_loops) \<longrightarrow>
            engine_calls (snd (conduct_research ext query provider model max_loops extra_effort
              minimum_effort enable_steering uploaded_files s)) = engine_calls s)"
proof (intro conjI impI)
  assume acc: "environ_accepts ext provider model max_loops"
  from engine_calls_dispatched [OF assms acc] acc
  show "\<exists>env kwargs.
             engine_calls (snd (conduct_research ext query provider model max_loops extra_effort
               minimum_effort enable_steering uploaded_files s)) = engine_calls s @ [(env, kwargs)]
           \<and> int_str max_loops = Inr (decimal max_loops)
           \<and> env (lit ''MAX_WEB_RESEARCH_LOOPS'') = Some (decimal max_loops)
           \<and> arg_minimum_effort kwargs = minimum_effort
           \<and> arg_extra_effort kwargs = extra_effort"
    by (simp add: session_environ_def engine_kwargs_def environ_accepts_def)
next
  assume "int_str max_loops \<noteq> Inr (decimal max_loops)"
  then have "\<not> environ_accepts ext provider model max_loops"
    by (simp add: environ_accepts_def)
  then show "engine_calls (snd (conduct_research ext query provider model max_loops extra_effort
              minimum_effort enable_steering uploaded_files s)) = engine_calls s"
    by (simp add: engine_calls_not_dispatched)
qed

theorem loop_count_passed_unclamped_witness:
  "\<not> list_all isspace (lit ''quantum computing trends'')
   \<and> environ_accepts (test_externals (Inr example_result)) (lit ''openai'') (lit ''o3-mini'') 25
   \<and> (\<exists>env kwargs.
        engine_calls (snd (conduct_research (test_externals (Inr example_result))
          (lit ''quantum computing trends'') (lit ''openai'') (lit ''o3-mini'') 25 True True False
          None initial_state)) = [(env, kwargs)]
        \<and> env (lit ''MAX_WEB_RESEARCH_LOOPS'') = Some (lit ''25'')
        \<and> arg_minimum_effort kwargs = True
        \<and> arg_extra_effort kwargs = True)
   \<and> int_max_str_digits = 4300
   \<and> int_str (10 ^ (int_max_str_digits - 1)) = Inr (decimal (10 ^ (int_max_str_digits - 1)))
   \<and> int_str (10 ^ int_max_str_digits) \<noteq> Inr (decimal (10 ^ int_max_str_digits))
   \<and> engine_calls (snd (conduct_research (test_externals (Inr example_result))
          (lit ''quantum computing trends'') (lit ''openai'') (lit ''o3-mini'')
          (10 ^ int_max_str_digits) True True False None initial_state)) = []"
proof -
  have h: "int_str (10 ^ int_max_str_digits) \<noteq> Inr (decimal (10 ^ int_max_str_digits))"
    by (simp add: int_str_over_limit)
  have i: "engine_calls initial_state = []" by (simp add: initial_state_def)
  from loop_count_passed_unclamped [OF nonblank_example,
      of "test_externals (Inr example_result)" "lit ''openai''" "lit ''o3-mini''" 25
         True True False None initial_state]
    loop_count_passed_unclamped [OF nonblank_example,
      of "test_externals (Inr example_result)" "lit ''openai''" "lit ''o3-mini''"
         "10 ^ int_max_str_digits" True True False None initial_state]
    nonblank_example test_externals_accepts(3) [of "Inr example_result"] h i
    int_str_at_limit
  have "\<not> list_all isspace (lit ''quantum computing trends'')
   \<and> environ_accepts (test_externals (Inr example_result)) (lit ''openai'') (lit ''o3-mini'') 25
   \<and> (\<exists>env kwargs.
        engine_calls (snd (conduct_research (test_externals (Inr example_result))
          (lit ''quantum computing trends'') (lit ''openai'') (lit ''o3-mini'') 25 True True False
          None initial_state)) = [(env, kwargs)]
        \<and> env (lit ''MAX_WEB_RESEARCH_LOOPS'') = Some (lit ''25'')
        \<and> arg_minimum_effort kwargs = True
        \<and> arg_extra_effort kwargs = True)
   \<and> int_str (10 ^ (int_max_str_digits - 1)) = Inr (decimal (10 ^ (int_max_str_digits - 1)))
   \<and> int_str (10 ^ int_max_str_digits) \<noteq> Inr (decimal (10 ^ int_max_str_digits))
   \<and> engine_calls (snd (conduct_research (test_externals (Inr example_result))
          (lit ''quantum computing trends'') (lit ''openai'') (lit ''o3-mini'')
          (10 ^ int_max_str_digits) True True False None initial_state)) = []"
    by (auto simp: decimal_small)
  moreover have "int_max_str_digits = 4300" by (simp add: int_max_str_digits_def)
  ultimately show ?thesis by blast
qed

text \<open>
  The claim C4 as stated fails twice: with \<open>max_loops = 25\<close> the engine call sees the loop
  count 25, outside the range, and with minimum effort and \<open>max_loops = 5\<close> it sees 5, not 1.
\<close>

theorem loop_count_counterexample:
  "map (\<lambda>c. fst c (lit ''MAX_WEB_RESEARCH_LOOPS''))
      (engine_calls (snd (conduct_research (test_externals (Inr example_result))
         (lit ''quantum computing trends'') (lit ''openai'') (lit ''o3-mini'') 25 False False False
         None initial_state))) = [Some (lit ''25'')]
   \<and> map (\<lambda>c. fst c (lit ''MAX_WEB_RESEARCH_LOOPS''))
      (engine_calls (snd (conduct_research (test_externals (Inr example_result))
         (lit ''quantum computing trends'') (lit ''openai'') (lit ''o3-mini'') 5 False True False
         None initial_state))) = [Some (lit ''5'')]"
  by (simp add: run_defs)

text \<open>
  Claim C5, as amended. Of the uploaded files, the loop keeps exactly those that could be
  read, in upload order, each under its header; one that could not be read never stops the
  loop and leaves exactly one warning, with its name and the reason, in the log, in upload
  order. Their number is that of the uploads less the number of warnings. The warnings
  are log records only: the value \<open>conduct_research\<close> returns is the one it returns when
  the unreadable files are not uploaded at all.
\<close>

theorem ingestion_skips_are_logged:
  "fst (read_uploaded ext files [] s) = map (\<lambda>(n, c). file_block n c) (document_bundle ext files)
   \<and> logged (snd (read_uploaded ext files [] s)) =
       logged s @ map (\<lambda>(n, e). (WARNING, read_warning n e)) (skip_warnings ext files)
   \<and> map fst (document_bundle ext files) =
       map name (filter (\<lambda>f. \<not> isl (read_text ext (name f))) files)
   \<and> map fst (skip_warnings ext files) =
       map name (filter (\<lambda>f. isl (read_text ext (name f))) files)
   \<and> length (document_bundle ext files) = length files - length (skip_warnings ext files)
   \<and> fst (conduct_research ext query provider model max_loops extra_effort minimum_effort
             enable_steering (Some files) s) =
     fst (conduct_research ext query provider model max_loops extra_effort minimum_effort
             enable_steering (Some (filter (\<lambda>f. \<not> isl (read_text ext (name f))) files)) s)"
proof -
  have "length (document_bundle ext files) = length files - length (skip_warnings ext files)"
    using bundle_skip_length [of ext files] by simp
  then show ?thesis
    using outcome_independent_of_skipped [of ext query provider model max_loops extra_effort
        minimum_effort enable_steering files s]
    by (simp add: read_uploaded_eq document_bundle_names skip_warnings_names del: read_uploaded.simps)
qed

theorem ingestion_skips_are_logged_witness:
  "fst (read_uploaded (test_externals (Inr example_result))
         [Upload (lit ''/tmp/missing.txt''), Upload (lit ''/tmp/notes.txt'')] [] initial_state) =
     [lit ''=== File: notes.txt ==='' @ nl @ lit ''alpha'' @ nl]
   \<and> logged (snd (read_uploaded (test_externals (Inr example_result))
         [Upload (lit ''/tmp/missing.txt''), Upload (lit ''/tmp/notes.txt'')] [] initial_state)) =
     [(WARNING, lit ''Could not read file /tmp/missing.txt: No such file'')]
   \<and> length (document_bundle (test_externals (Inr example_result))
         [Upload (lit ''/tmp/missing.txt''), Upload (lit ''/tmp/notes.txt'')]) = 2 - 1"
  using ingestion_skips_are_logged [of "test_externals (Inr example_result)"
      "[Upload (lit ''/tmp/missing.txt''), Upload (lit ''/tmp/notes.txt'')]" initial_state
      "lit ''q''" "lit ''openai''" "lit ''o3-mini''" 5 False False False]
  by (simp add: document_bundle_def skip_warnings_def map_filter_simps test_externals_def
        initial_state_def file_block_def read_warning_def basename_def lit_def nl_def
        del: read_uploaded.simps)

text \<open>
  The claim C5 as stated fails for one unreadable upload: the returned triple is the
  triple of the same invocation without any upload, and the skip appears in the log alone.
\<close>

theorem skip_warning_counterexample:
  "fst (conduct_research (test_externals (Inr example_result))
         (lit ''quantum computing trends'') (lit ''openai'') (lit ''o3-mini'') 5 False False False
         (Some [Upload (lit ''/tmp/missing.txt'')]) initial_state) =
     Returned (PStr (lit ''Report body''), lit ''- https://a.com'' @ nl @ lit ''- https://b.com'',
       check_mark @ lit '' Research complete! Conducted 5 research loops.'')
   \<and> fst (conduct_research (test_externals (Inr example_result))
         (lit ''quantum computing trends'') (lit ''openai'') (lit ''o3-mini'') 5 False False False
         None initial_state) =
     Returned (PStr (lit ''Report body''), lit ''- https://a.com'' @ nl @ lit ''- https://b.com'',
       check_mark @ lit '' Research complete! Conducted 5 research loops.'')
   \<and> logged (snd (conduct_research (test_externals (Inr example_result))
         (lit ''quantum computing trends'') (lit ''openai'') (lit ''o3-mini'') 5 False False False
         (Some [Upload (lit ''/tmp/missing.txt'')]) initial_state)) =
     [(INFO, lit ''Starting research: quantum computing trends...''),
      (WARNING, lit ''Could not read file /tmp/missing.txt: No such file'')]"
  by (simp add: run_defs)

text \<open>
  Claim C6, as amended. When the engine call raises an instance of \<open>Exception\<close>, the
  invocation returns two empty strings and a status made of the error mark, the words
  ``Error during research'' and the message; no instance of \<open>Exception\<close> leaves
  \<open>conduct_research\<close>. An exception of the engine that is no instance of \<open>Exception\<close> is
  not caught by the handler and reaches the caller.
\<close>

theorem engine_exception_is_reported:
  assumes "\<not> list_all isspace query" "environ_accepts ext provider model max_loops"
  shows "(research_service ext (session_environ provider model max_loops (environ s))
            (engine_kwargs ext query provider model extra_effort minimum_effort enable_steering
               uploaded_files) = Inl (Exception msg) \<longrightarrow>
          fst (conduct_research ext query provider model max_loops extra_effort minimum_effort
                 enable_steering uploaded_files s) =
            Returned (PStr [], [], cross_mark @ lit '' Error during research: '' @ msg))
       \<and> (research_service ext (session_environ provider model max_loops (environ s))
            (engine_kwargs ext query provider model extra_effort minimum_effort enable_steering
               uploaded_files) = Inl (BaseException msg) \<longrightarrow>
          fst (conduct_research ext query provider model max_loops extra_effort minimum_effort
                 enable_steering uploaded_files s) = Raised (BaseException msg))
       \<and> fst (conduct_research ext query provider model max_loops extra_effort minimum_effort
                 enable_steering uploaded_files s) \<noteq> Raised (Exception msg)"
  using outcome_dispatched [OF assms, of extra_effort minimum_effort enable_steering
      uploaded_files s]
  by (auto simp: error_result_def split: sum.splits exn.splits)

theorem engine_exception_is_reported_witness:
  "\<not> list_all isspace (lit ''quantum computing trends'')
   \<and> environ_accepts (test_externals (Inl (Exception (lit ''rate limit'')))) (lit ''openai'')
        (lit ''o3-mini'') 5
   \<and> research_service (test_externals (Inl (Exception (lit ''rate limit''))))
        (session_environ (lit ''openai'') (lit ''o3-mini'') 5 (environ initial_state))
        (engine_kwargs (test_externals (Inl (Exception (lit ''rate limit''))))
           (lit ''quantum computing trends'') (lit ''openai'') (lit ''o3-mini'') False False False
           None) = Inl (Exception (lit ''rate limit''))
   \<and> fst (conduct_research (test_externals (Inl (Exception (lit ''rate limit''))))
         (lit ''quantum computing trends'') (lit ''openai'') (lit ''o3-mini'') 5 False False False
         None initial_state) =
       Returned (PStr [], [], cross_mark @ lit '' Error during research: rate limit'')"
proof -
  have h: "research_service (test_externals (Inl (Exception (lit ''rate limit''))))
        (session_environ (lit ''openai'') (lit ''o3-mini'') 5 (environ initial_state))
        (engine_kwargs (test_externals (Inl (Exception (lit ''rate limit''))))
           (lit ''quantum computing trends'') (lit ''openai'') (lit ''o3-mini'') False False False
           None) = Inl (Exception (lit ''rate limit''))"
    by (simp add: test_externals_def engine_mock_def)
  from engine_exception_is_reported [OF nonblank_example test_externals_accepts(1),
      of "Inl (Exception (lit ''rate limit''))" initial_state False False False None
         "lit ''rate limit''"] h
  show ?thesis using nonblank_example test_externals_accepts(1)
    by (simp add: lit_def)
qed

text \<open>
  The claim C6 as stated fails for an engine that raises outside \<open>Exception\<close>, as a
  cancelled call does: the exception leaves \<open>conduct_research\<close>.
\<close>

theorem engine_exception_counterexample:
  "fst (conduct_research (test_externals (Inl (BaseException (lit ''cancelled''))))
         (lit ''quantum computing trends'') (lit ''openai'') (lit ''o3-mini'') 5 False False False
         None initial_state) = Raised (BaseException (lit ''cancelled''))"
  by (simp add: run_defs)

text \<open>
  Claim C7, as amended. The extraction never raises on a missing field: a missing report
  field gives the placeholder ``No report generated'' (a present one is returned as it
  is), a missing sources field, or one whose truth test is false, gives ``No sources
  gathered'', and a missing loop count is rendered as 0 in the status. On a mistyped
  field it can raise. It returns a result exactly when the truth test of the sources
  field does not raise, a truthy sources field can be iterated to its end with \<open>str\<close> of
  every item succeeding, and \<open>str\<close> of the loop count succeeds. So a sources field that
  holds a non-zero integer, or a float other than zero, raises a \<open>TypeError\<close>.
\<close>

theorem extraction_defaults:
  "((\<exists>res. extract_results rp result = Inr res) \<longleftrightarrow>
      (case result (lit ''sources_gathered'') of
         None \<Rightarrow> True
       | Some v \<Rightarrow>
           truthy v = Inr False
           \<or> (truthy v = Inr True \<and> snd (py_iter v) = None
                \<and> (\<forall>x \<in> set (fst (py_iter v)). \<exists>t. py_str rp x = Inr t)))
      \<and> (case result (lit ''research_loop_count'') of
            None \<Rightarrow> True
          | Some v \<Rightarrow> (\<exists>t. py_str rp v = Inr t)))
   \<and> (extract_results rp result = Inr (report, sources_text, status) \<longrightarrow>
        (result (lit ''running_summary'') = None \<longrightarrow>
           report = PStr (lit ''No report generated''))
      \<and> (\<forall>v. result (lit ''running_summary'') = Some v \<longrightarrow> report = v)
      \<and> (result (lit ''sources_gathered'') = None
            \<or> (\<exists>v. result (lit ''sources_gathered'') = Some v \<and> truthy v = Inr False) \<longrightarrow>
           sources_text = lit ''No sources gathered'')
      \<and> (result (lit ''research_loop_count'') = None \<longrightarrow>
           status = [8218, 250, 214] @ lit '' Research complete! Conducted 0 research loops.''))
   \<and> (extract_results rp result = Inr (report, sources_text, status)
        \<and> result (lit ''sources_gathered'') \<in>
            {Some PNone, Some (PBool False), Some (PInt 0), Some (PStr []), Some (PList [])} \<longrightarrow>
        sources_text = lit ''No sources gathered'')
   \<and> (n \<noteq> 0 \<and> result (lit ''sources_gathered'') = Some (PInt n) \<longrightarrow>
        extract_results rp result = Inl (not_iterable ''int''))
   \<and> (result (lit ''sources_gathered'') =
          Some (PObj (Inr True) [] (Some (not_iterable ''float'')) as_str as_repr) \<longrightarrow>
        extract_results rp result = Inl (not_iterable ''float''))"
proof -
  have status0: "complete_status rp (PInt 0) =
      Inr ([8218, 250, 214] @ lit '' Research complete! Conducted 0 research loops.'')"
    by (simp add: complete_status_def py_str_def int_str_small check_mark_def lit_def)
  have status_iff: "(\<exists>t. complete_status rp v = Inr t) \<longleftrightarrow> (\<exists>t. py_str rp v = Inr t)" for v
    by (cases "py_str rp v") (auto simp: complete_status_def)
  have lines_iff: "(\<exists>t. bullet_lines rp v = Inr t) \<longleftrightarrow>
      snd (py_iter v) = None \<and> (\<forall>x \<in> set (fst (py_iter v)). \<exists>t. py_str rp x = Inr t)" for v
  proof -
    have "(\<exists>ls. sequence (map (bullet rp) xs) = Inr ls) \<longleftrightarrow>
        (\<forall>x \<in> set xs. \<exists>t. py_str rp x = Inr t)" for xs
      by (simp add: sequence_returns_iff bullet_returns_iff)
    from this [of "fst (py_iter v)"] show ?thesis
      by (cases "py_iter v"; cases "sequence (map (bullet rp) (fst (py_iter v)))")
         (auto simp: bullet_lines_def split: option.splits)
  qed
  have text_iff: "(\<exists>t. (case truthy v of Inl e \<Rightarrow> Inl e | Inr True \<Rightarrow> bullet_lines rp v
                        | Inr False \<Rightarrow> Inr (lit ''No sources gathered'')) = Inr t) \<longleftrightarrow>
      truthy v = Inr False
      \<or> (truthy v = Inr True \<and> snd (py_iter v) = None
           \<and> (\<forall>x \<in> set (fst (py_iter v)). \<exists>t. py_str rp x = Inr t))" for v
    using lines_iff [of v] by (cases "truthy v") (auto split: bool.splits)
  have a: "(\<exists>res. extract_results rp result = Inr res) \<longleftrightarrow>
      (case result (lit ''sources_gathered'') of
         None \<Rightarrow> True
       | Some v \<Rightarrow>
           truthy v = Inr False
           \<or> (truthy v = Inr True \<and> snd (py_iter v) = None
                \<and> (\<forall>x \<in> set (fst (py_iter v)). \<exists>t. py_str rp x = Inr t)))
      \<and> (case result (lit ''research_loop_count'') of
            None \<Rightarrow> True
          | Some v \<Rightarrow> (\<exists>t. py_str rp v = Inr t))"
  proof (cases "result (lit ''sources_gathered'')")
    case None
    show ?thesis
    proof (cases "result (lit ''research_loop_count'')")
      case None
      with \<open>result (lit ''sources_gathered'') = None\<close> show ?thesis
        by (simp add: extract_results_def status0)
    next
      case (Some c)
      with None status_iff [of c] show ?thesis
        by (cases "complete_status rp c") (auto simp: extract_results_def)
    qed
  next
    case (Some v)
    show ?thesis
    proof (cases "case truthy v of Inl e \<Rightarrow> Inl e | Inr True \<Rightarrow> bullet_lines rp v
                  | Inr False \<Rightarrow> Inr (lit ''No sources gathered'')")
      case (Inl e)
      with Some text_iff [of v] show ?thesis
        by (auto simp: extract_results_def)
    next
      case (Inr t)
      then have ok: "truthy v = Inr False
          \<or> (truthy v = Inr True \<and> snd (py_iter v) = None
               \<and> (\<forall>x \<in> set (fst (py_iter v)). \<exists>t. py_str rp x = Inr t))"
        using text_iff [of v] by auto
      show ?thesis
      proof (cases "result (lit ''research_loop_count'')")
        case None
        with Some Inr ok show ?thesis
          by (simp add: extract_results_def status0)
      next
        case (Some c)
        with \<open>result (lit ''sources_gathered'') = Some v\<close> Inr ok status_iff [of c]
        show ?thesis
          by (cases "complete_status rp c") (auto simp: extract_results_def)
      qed
    qed
  qed
  have b: "extract_results rp result = Inr (report, sources_text, status) \<longrightarrow>
        (result (lit ''running_summary'') = None \<longrightarrow>
           report = PStr (lit ''No report generated''))
      \<and> (\<forall>v. result (lit ''running_summary'') = Some v \<longrightarrow> report = v)
      \<and> (result (lit ''sources_gathered'') = None
            \<or> (\<exists>v. result (lit ''sources_gathered'') = Some v \<and> truthy v = Inr False) \<longrightarrow>
           sources_text = lit ''No sources gathered'')
      \<and> (result (lit ''research_loop_count'') = None \<longrightarrow>
           status = [8218, 250, 214] @ lit '' Research complete! Conducted 0 research loops.'')"
    using status0
    by (auto simp: extract_results_def Let_def split: option.splits sum.splits bool.splits)
  have c: "n \<noteq> 0 \<and> result (lit ''sources_gathered'') = Some (PInt n) \<longrightarrow>
        extract_results rp result = Inl (not_iterable ''int'')"
    by (simp add: extract_results_def bullet_lines_def)
  have d: "result (lit ''sources_gathered'') =
          Some (PObj (Inr True) [] (Some (not_iterable ''float'')) as_str as_repr) \<longrightarrow>
        extract_results rp result = Inl (not_iterable ''float'')"
    by (simp add: extract_results_def bullet_lines_def)
  have e: "extract_results rp result = Inr (report, sources_text, status)
        \<and> result (lit ''sources_gathered'') \<in>
            {Some PNone, Some (PBool False), Some (PInt 0), Some (PStr []), Some (PList [])} \<longrightarrow>
        sources_text = lit ''No sources gathered''"
    by (auto simp: extract_results_def Let_def split: sum.splits)
  from a b c d e show ?thesis by blast
qed

theorem extraction_defaults_witness:
  "extract_results (\<lambda>s. s) Map.empty =
     Inr (PStr (lit ''No report generated''), lit ''No sources gathered'',
          [8218, 250, 214] @ lit '' Research complete! Conducted 0 research loops.'')
   \<and> (5::int) \<noteq> 0
   \<and> extract_results (\<lambda>s. s) [lit ''sources_gathered'' \<mapsto> PInt 5] = Inl (not_iterable ''int'')
   \<and> extract_results (\<lambda>s. s)
        [lit ''running_summary'' \<mapsto> PInt 7, lit ''sources_gathered'' \<mapsto> PNone,
         lit ''research_loop_count'' \<mapsto> PStr (lit ''three'')] =
       Inr (PInt 7, lit ''No sources gathered'',
            [8218, 250, 214] @ lit '' Research complete! Conducted three research loops.'')
   \<and> extract_results (\<lambda>s. s) [lit ''sources_gathered'' \<mapsto> PStr (lit ''ab'')] =
       Inr (PStr (lit ''No report generated''), lit ''- a'' @ [10] @ lit ''- b'',
            [8218, 250, 214] @ lit '' Research complete! Conducted 0 research loops.'')"
proof -
  have "\<exists>res. extract_results (\<lambda>s. s) Map.empty = Inr res"
    using extraction_defaults [of "\<lambda>s. s" Map.empty] by simp
  then obtain report sources_text status
    where r: "extract_results (\<lambda>s. s) Map.empty = Inr (report, sources_text, status)"
    by auto
  from extraction_defaults [of "\<lambda>s. s" Map.empty report sources_text status] r
  have "extract_results (\<lambda>s. s) Map.empty =
     Inr (PStr (lit ''No report generated''), lit ''No sources gathered'',
          [8218, 250, 214] @ lit '' Research complete! Conducted 0 research loops.'')"
    by simp
  moreover have "extract_results (\<lambda>s. s) [lit ''sources_gathered'' \<mapsto> PInt 5] =
      Inl (not_iterable ''int'')"
    using extraction_defaults [of "\<lambda>s. s" "[lit ''sources_gathered'' \<mapsto> PInt 5]" _ _ _ 5]
    by simp
  moreover have "extract_results (\<lambda>s. s)
        [lit ''running_summary'' \<mapsto> PInt 7, lit ''sources_gathered'' \<mapsto> PNone,
         lit ''research_loop_count'' \<mapsto> PStr (lit ''three'')] =
       Inr (PInt 7, lit ''No sources gathered'',
            [8218, 250, 214] @ lit '' Research complete! Conducted three research loops.'')"
    by (simp add: run_defs)
  moreover have "extract_results (\<lambda>s. s) [lit ''sources_gathered'' \<mapsto> PStr (lit ''ab'')] =
       Inr (PStr (lit ''No report generated''), lit ''- a'' @ [10] @ lit ''- b'',
            [8218, 250, 214] @ lit '' Research complete! Conducted 0 research loops.'')"
    by (simp add: run_defs)
  ultimately show ?thesis by simp
qed

text \<open>
  The claim C7 as stated fails for a result whose sources field is the integer 5: the
  extraction raises, and the invocation returns the error status with an empty report,
  although the result holds one.
\<close>

theorem mistyped_sources_counterexample:
  "extract_results (\<lambda>s. s)
      [lit ''running_summary'' \<mapsto> PStr (lit ''Report body''), lit ''sources_gathered'' \<mapsto> PInt 5] =
     Inl (Exception (lit '''int' object is not iterable''))
   \<and> fst (conduct_research
         (test_externals (Inr [lit ''running_summary'' \<mapsto> PStr (lit ''Report body''),
                               lit ''sources_gathered'' \<mapsto> PInt 5]))
         (lit ''quantum computing trends'') (lit ''openai'') (lit ''o3-mini'') 5 False False False
         None initial_state) =
     Returned (PStr [], [], cross_mark @ lit '' Error during research: 'int' object is not iterable'')"
  by (simp add: run_defs)



text \<open>
  Claim C9, as amended. The progress events of one invocation have non-decreasing
  fractions and are among the four milestones 0.1, 0.2, 0.3 and 1.0. An invocation with a
  blank query sends none. One with a non-blank query sends the 0.2 milestone exactly when
  the list of uploaded files is given and not empty, whether or not a file can be read.
\<close>

theorem progress_milestones:
  "\<exists>events.
      progress_events (snd (conduct_research ext query provider model max_loops extra_effort
        minimum_effort enable_steering uploaded_files s)) = progress_events s @ events
    \<and> sorted (map fst events)
    \<and> set events \<subseteq> milestones
    \<and> (list_all isspace query \<longrightarrow> events = [])
    \<and> (\<not> list_all isspace query \<longrightarrow>
         ((2 / 10, lit ''Processing uploaded files...'') \<in> set events
            \<longleftrightarrow> uploaded_files \<noteq> None \<and> uploaded_files \<noteq> Some []))"
proof (cases "list_all isspace query")
  case True
  then show ?thesis by (simp add: conduct_research_def guard_iff)
next
  case False
  have ne: "lit ''Processing uploaded files...'' \<noteq> lit ''Initializing research...''"
    by (simp add: lit_def)
  show ?thesis
  proof (cases "environ_failure ext provider model max_loops")
    case (Some msg)
    from conduct_research_env_fail(2) [OF False Some, of extra_effort minimum_effort
        enable_steering uploaded_files s] upload_events_cases [of uploaded_files] False
    show ?thesis by (auto simp: milestones_def)
  next
    case None
    then have acc: "environ_accepts ext provider model max_loops"
      by (simp add: environ_accepts_iff)
    from progress_events_dispatched [OF False acc, of extra_effort minimum_effort
        enable_steering uploaded_files s] upload_events_cases [of uploaded_files] False
    show ?thesis by (auto simp: milestones_def split: sum.splits)
  qed
qed

theorem progress_milestones_witness:
  "\<not> list_all isspace (lit ''quantum computing trends'')
   \<and> (2 / 10, lit ''Processing uploaded files...'') \<in> set (progress_events (snd
        (conduct_research (test_externals (Inr example_result))
         (lit ''quantum computing trends'') (lit ''openai'') (lit ''o3-mini'') 5 False False False
         (Some [Upload (lit ''/tmp/notes.txt'')]) initial_state)))
   \<and> list_all isspace (lit ''   '')
   \<and> progress_events (snd
        (conduct_research (test_externals (Inr example_result))
         (lit ''   '') (lit ''openai'') (lit ''o3-mini'') 5 False False False
         (Some [Upload (lit ''/tmp/notes.txt'')]) initial_state)) = []"
proof -
  have h: "list_all isspace (lit ''   '')" by (simp add: lit_def isspace_def)
  from progress_milestones [of "test_externals (Inr example_result)"
      "lit ''quantum computing trends''" "lit ''openai''" "lit ''o3-mini''" 5 False False False
      "Some [Upload (lit ''/tmp/notes.txt'')]" initial_state]
    progress_milestones [of "test_externals (Inr example_result)"
      "lit ''   ''" "lit ''openai''" "lit ''o3-mini''" 5 False False False
      "Some [Upload (lit ''/tmp/notes.txt'')]" initial_state]
    nonblank_example h
  show ?thesis by (auto simp: initial_state_def)
qed

text \<open>
  The claim C9 as stated fails for a blank query with an uploaded file: the file is
  present and no event, so no 0.2 milestone, is sent.
\<close>

theorem progress_blank_query_counterexample:
  "progress_events (snd
        (conduct_research (test_externals (Inr example_result))
         (lit ''   '') (lit ''openai'') (lit ''o3-mini'') 5 False False False
         (Some [Upload (lit ''/tmp/notes.txt'')]) initial_state)) = []"
  by (simp add: run_defs)

text \<open>
  Claim C10. For a provider of the catalog the lookup returns its list of models, for any
  other string the one-element list \<open>default\<close>; the list is never empty, and the dropdown
  update selects its first element.
\<close>

theorem model_lookup:
  "((provider, models) \<in> set PROVIDERS \<longrightarrow> get_models_for_provider provider = models)
   \<and> (provider \<notin> fst ` set PROVIDERS \<longrightarrow> get_models_for_provider provider = [lit ''default''])
   \<and> (\<exists>m rest. get_models_for_provider provider = m # rest
         \<and> update_models provider = Inr \<lparr>choices = m # rest, selected = m\<rparr>)"
proof -
  have a: "(provider, models) \<in> set PROVIDERS \<longrightarrow> get_models_for_provider provider = models"
    using PROVIDERS_distinct by (simp add: get_models_for_provider_def)
  have b: "provider \<notin> fst ` set PROVIDERS \<longrightarrow> get_models_for_provider provider = [lit ''default'']"
  proof
    assume "provider \<notin> fst ` set PROVIDERS"
    then have "map_of PROVIDERS provider = None" by (simp add: map_of_eq_None_iff)
    then show "get_models_for_provider provider = [lit ''default'']"
      by (simp add: get_models_for_provider_def)
  qed
  have "get_models_for_provider provider \<noteq> []"
  proof (cases "map_of PROVIDERS provider")
    case None
    then show ?thesis by (simp add: get_models_for_provider_def)
  next
    case (Some ms)
    then have "(provider, ms) \<in> set PROVIDERS" by (rule map_of_SomeD)
    with Some show ?thesis by (simp add: get_models_for_provider_def PROVIDERS_nonempty)
  qed
  then obtain m rest where c: "get_models_for_provider provider = m # rest"
    by (cases "get_models_for_provider provider") auto
  then have "update_models provider = Inr \<lparr>choices = m # rest, selected = m\<rparr>"
    by (simp add: update_models_def)
  with a b c show ?thesis by blast
qed

theorem model_lookup_witness:
  "(lit ''sambanova'', [lit ''DeepSeek-V3-0324'']) \<in> set PROVIDERS
   \<and> get_models_for_provider (lit ''sambanova'') = [lit ''DeepSeek-V3-0324'']
   \<and> lit ''acme'' \<notin> fst ` set PROVIDERS
   \<and> get_models_for_provider (lit ''acme'') = [lit ''default'']
   \<and> update_models (lit ''acme'') = Inr \<lparr>choices = [lit ''default''], selected = lit ''default''\<rparr>"
proof -
  have h1: "(lit ''sambanova'', [lit ''DeepSeek-V3-0324'']) \<in> set PROVIDERS"
    by (simp add: PROVIDERS_def)
  have h2: "lit ''acme'' \<notin> fst ` set PROVIDERS"
    by (simp add: PROVIDERS_def lit_def)
  from model_lookup [of "lit ''sambanova''" "[lit ''DeepSeek-V3-0324'']"]
       model_lookup [of "lit ''acme''" "[]"] h1 h2
  show ?thesis by auto
qed

end
